theory Spec2Isabelle
  imports Main "HOL-Library.Word" "HOL-Library.Sublist"
begin

section \<open>A TFTP client: the transfer engine\<close>

text \<open>
  The development embeds the functions of the client one by one: the constants and the
  two tables, \<open>pack\<close> and \<open>unpack\<close> for the format \<open>>hh\<close>, the three senders,
  \<open>receive_data\<close>, and the loops of \<open>download_file\<close> and \<open>upload_file\<close>.

  The socket and the files are made explicit. A call of \<open>recvfrom\<close> yields the next
  \<open>event\<close> of a list that stands for what the network delivers: a datagram with its
  source endpoint, or the elapse of the receive timeout. Every \<open>sendto\<close> appends the
  datagram and its destination to \<open>sent\<close>, every \<open>print\<close> appends a line to
  \<open>printed\<close>. The destination file of a download is \<open>written\<close> (the bytes written
  through the handle) and \<open>file_exists\<close> (whether the path is still in the directory);
  the source file of an upload is a byte list read at \<open>position\<close>.
\<close>

subsection \<open>Data\<close>

type_synonym byte = "8 word"

type_synonym endpoint = "string \<times> nat"

datatype error = StructError | SystemExit int

datatype event = Timeout | Datagram "byte list" endpoint

datatype outcome = Completed | Aborted | Raised error | Blocked

record world =
  sent :: "(byte list \<times> endpoint) list"
  printed :: "string list"
  written :: "byte list"
  file_exists :: bool
  position :: nat

text \<open>
  \<open>Completed\<close> is the \<open>break\<close> after the last block, \<open>Aborted\<close> the \<open>break\<close> of the
  ERROR branch, \<open>Raised\<close> an exception that leaves the function, and \<open>Blocked\<close> says
  that the events given were all consumed while the loop was still running: the code is
  inside \<open>recvfrom\<close>.
\<close>

subsection \<open>Constants and tables\<close>

definition DEFAULT_PORT :: nat where
  "DEFAULT_PORT = 69"

definition BLOCK_SIZE :: nat where
  "BLOCK_SIZE = 512"

definition encode :: "string \<Rightarrow> byte list" where
  "encode s = map of_char s"

definition DEFAULT_TRANSFER_MODE :: string where
  "DEFAULT_TRANSFER_MODE = ''octet''"

datatype opname = RRQ | WRQ | DATA | ACK | ERROR

fun OPCODE :: "opname \<Rightarrow> int" where
  "OPCODE RRQ = 1"
| "OPCODE WRQ = 2"
| "OPCODE DATA = 3"
| "OPCODE ACK = 4"
| "OPCODE ERROR = 5"

definition ERROR_CODE :: "int \<rightharpoonup> string" where
  "ERROR_CODE =
     [0 \<mapsto> ''Not defined, see error message (if any).'',
      1 \<mapsto> ''File not found.'',
      2 \<mapsto> ''Access violation.'',
      3 \<mapsto> ''Disk full or allocation exceeded.'',
      4 \<mapsto> ''Illegal TFTP operation.'',
      5 \<mapsto> ''Unknown transfer ID.'',
      6 \<mapsto> ''File already exists.'',
      7 \<mapsto> ''No such user.'']"

definition dict_get :: "('k \<rightharpoonup> 'v) \<Rightarrow> 'k \<Rightarrow> 'v \<Rightarrow> 'v" where
  "dict_get m k d = (case m k of None \<Rightarrow> d | Some v \<Rightarrow> v)"

text \<open>The lines the client prints are Korean; they are given as their UTF-8 bytes.\<close>

definition timeout_text :: string where
  "timeout_text =
     [CHR 0xED, CHR 0x83, CHR 0x80, CHR 0xEC, CHR 0x9E, CHR 0x84, CHR 0xEC, CHR 0x95, CHR 0x84,
      CHR 0xEC, CHR 0x9B, CHR 0x83, CHR 0x3A, CHR 0x20, CHR 0xEC, CHR 0x9D, CHR 0x91, CHR 0xEB,
      CHR 0x8B, CHR 0xB5, CHR 0xEC, CHR 0x9D, CHR 0xB4, CHR 0x20, CHR 0xEC, CHR 0x97, CHR 0x86,
      CHR 0xEC, CHR 0x8A, CHR 0xB5, CHR 0xEB, CHR 0x8B, CHR 0x88, CHR 0xEB, CHR 0x8B, CHR 0xA4,
      CHR 0x2E, CHR 0x20, CHR 0xEC, CHR 0x9E, CHR 0xAC, CHR 0xEC, CHR 0x8B, CHR 0x9C, CHR 0xEB,
      CHR 0x8F, CHR 0x84, CHR 0x20, CHR 0xEC, CHR 0xA4, CHR 0x91, CHR 0x2E, CHR 0x2E, CHR 0x2E]"

definition download_done_text :: string where
  "download_done_text =
     [CHR 0xED, CHR 0x8C, CHR 0x8C, CHR 0xEC, CHR 0x9D, CHR 0xBC, CHR 0x20, CHR 0xEB, CHR 0x8B,
      CHR 0xA4, CHR 0xEC, CHR 0x9A, CHR 0xB4, CHR 0xEB, CHR 0xA1, CHR 0x9C, CHR 0xEB, CHR 0x93,
      CHR 0x9C, CHR 0x20, CHR 0xEC, CHR 0x99, CHR 0x84, CHR 0xEB, CHR 0xA3, CHR 0x8C, CHR 0x2E]"

definition upload_done_text :: string where
  "upload_done_text =
     [CHR 0xED, CHR 0x8C, CHR 0x8C, CHR 0xEC, CHR 0x9D, CHR 0xBC, CHR 0x20, CHR 0xEC, CHR 0x97,
      CHR 0x85, CHR 0xEB, CHR 0xA1, CHR 0x9C, CHR 0xEB, CHR 0x93, CHR 0x9C, CHR 0x20, CHR 0xEC,
      CHR 0x99, CHR 0x84, CHR 0xEB, CHR 0xA3, CHR 0x8C, CHR 0x2E]"

definition unknown_error_text :: string where
  "unknown_error_text =
     [CHR 0xEC, CHR 0x95, CHR 0x8C, CHR 0x20, CHR 0xEC, CHR 0x88, CHR 0x98, CHR 0x20, CHR 0xEC,
      CHR 0x97, CHR 0x86, CHR 0xEB, CHR 0x8A, CHR 0x94, CHR 0x20, CHR 0xEC, CHR 0x98, CHR 0xA4,
      CHR 0xEB, CHR 0xA5, CHR 0x98]"

definition missing_text :: "string \<Rightarrow> string" where
  "missing_text filename =
     [CHR 0xED, CHR 0x8C, CHR 0x8C, CHR 0xEC, CHR 0x9D, CHR 0xBC, CHR 0x20] @ filename @
     [CHR 0xEC, CHR 0x9D, CHR 0xB4, CHR 0x28, CHR 0xEA, CHR 0xB0, CHR 0x80, CHR 0x29, CHR 0x20,
      CHR 0xEC, CHR 0xA1, CHR 0xB4, CHR 0xEC, CHR 0x9E, CHR 0xAC, CHR 0xED, CHR 0x95, CHR 0x98,
      CHR 0xEC, CHR 0xA7, CHR 0x80, CHR 0x20, CHR 0xEC, CHR 0x95, CHR 0x8A, CHR 0xEC, CHR 0x8A,
      CHR 0xB5, CHR 0xEB, CHR 0x8B, CHR 0x88, CHR 0xEB, CHR 0x8B, CHR 0xA4, CHR 0x2E]"

subsection \<open>The format \<open>>hh\<close>\<close>

text \<open>
  \<open>h\<close> is a signed 16-bit integer, the leading \<open>>\<close> makes it big-endian. \<open>pack\<close> raises
  \<open>struct.error\<close> for a number outside \<open>-32768 .. 32767\<close>, \<open>unpack\<close> raises it for a
  buffer that is not exactly four bytes long.
\<close>

definition pack_h :: "int \<Rightarrow> error + byte list" where
  "pack_h n =
     (if - 32768 \<le> n \<and> n \<le> 32767
      then Inr [word_of_int (n div 256), word_of_int (n mod 256)]
      else Inl StructError)"

definition pack_hh :: "int \<Rightarrow> int \<Rightarrow> error + byte list" where
  "pack_hh a b =
     (case pack_h a of
        Inl e \<Rightarrow> Inl e
      | Inr x \<Rightarrow> (case pack_h b of Inl e \<Rightarrow> Inl e | Inr y \<Rightarrow> Inr (x @ y)))"

definition unpack_h :: "byte \<Rightarrow> byte \<Rightarrow> int" where
  "unpack_h hi lo =
     (let u = uint hi * 256 + uint lo in if 32768 \<le> u then u - 65536 else u)"

fun unpack_hh :: "byte list \<Rightarrow> error + int \<times> int" where
  "unpack_hh [a, b, c, d] = Inr (unpack_h a b, unpack_h c d)"
| "unpack_hh _ = Inl StructError"

subsection \<open>Senders\<close>

text \<open>
  \<open>send_request\<close> packs with \<open>>h{len(filename)}sB{len(mode)}sB\<close>. The file name is taken
  to be ASCII, so that it has as many bytes as characters and the \<open>s\<close> fields neither
  cut nor pad it.
\<close>

definition send_request ::
  "int \<Rightarrow> string \<Rightarrow> string \<Rightarrow> endpoint \<Rightarrow> world \<Rightarrow> error + world" where
  "send_request opcode filename mode server_address w =
     (case pack_h opcode of
        Inl e \<Rightarrow> Inl e
      | Inr h \<Rightarrow>
          Inr (w\<lparr>sent := sent w @
            [(h @ encode filename @ [0] @ encode mode @ [0], server_address)]\<rparr>))"

definition send_ack :: "int \<Rightarrow> endpoint \<Rightarrow> world \<Rightarrow> error + world" where
  "send_ack block_num server_address w =
     (case pack_hh (OPCODE ACK) block_num of
        Inl e \<Rightarrow> Inl e
      | Inr ack_message \<Rightarrow> Inr (w\<lparr>sent := sent w @ [(ack_message, server_address)]\<rparr>))"

definition send_data :: "int \<Rightarrow> byte list \<Rightarrow> endpoint \<Rightarrow> world \<Rightarrow> error + world" where
  "send_data block_num data_block server_address w =
     (case pack_hh (OPCODE DATA) block_num of
        Inl e \<Rightarrow> Inl e
      | Inr header \<Rightarrow>
          Inr (w\<lparr>sent := sent w @ [(header @ data_block, server_address)]\<rparr>))"

subsection \<open>Receiving\<close>

text \<open>
  \<open>recvfrom(516)\<close> keeps the first 516 bytes of the datagram. The result \<open>None\<close> stands
  for the tuple \<open>(None, None, None, None)\<close> returned after a timeout. Only
  \<open>socket.timeout\<close> is caught: the \<open>struct.error\<close> of \<open>unpack\<close> leaves the function.
  The second parameter is not used by the source either.
\<close>

type_synonym reply = "int \<times> int \<times> byte list \<times> endpoint"

definition receive_data :: "event \<Rightarrow> int \<Rightarrow> world \<Rightarrow> (error + reply option) \<times> world" where
  "receive_data ev expected_block_num w =
     (case ev of
        Timeout \<Rightarrow> (Inr None, w\<lparr>printed := printed w @ [timeout_text]\<rparr>)
      | Datagram d server \<Rightarrow>
          (let data = take 516 d in
           case unpack_hh (take 4 data) of
             Inl e \<Rightarrow> (Inl e, w)
           | Inr (opcode, block_num) \<Rightarrow>
               (Inr (Some (opcode, block_num, drop 4 data, server)), w)))"

subsection \<open>Download\<close>

fun download_loop :: "event list \<Rightarrow> int \<Rightarrow> world \<Rightarrow> outcome \<times> world" where
  "download_loop [] expected_block_num w = (Blocked, w)"
| "download_loop (ev # evs) expected_block_num w =
     (case receive_data ev expected_block_num w of
        (Inl e, w1) \<Rightarrow> (Raised e, w1)
      | (Inr None, w1) \<Rightarrow> download_loop evs expected_block_num w1
      | (Inr (Some (opcode, block_num, file_data, server)), w1) \<Rightarrow>
          if opcode = OPCODE DATA \<and> block_num = expected_block_num then
            (let w2 = w1\<lparr>written := written w1 @ file_data\<rparr> in
             case send_ack block_num server w2 of
               Inl e \<Rightarrow> (Raised e, w2)
             | Inr w3 \<Rightarrow>
                 if length file_data < BLOCK_SIZE
                 then (Completed, w3\<lparr>printed := printed w3 @ [download_done_text]\<rparr>)
                 else download_loop evs (expected_block_num + 1) w3)
          else if opcode = OPCODE ERROR then
            (Aborted,
             w1\<lparr>printed := printed w1 @ [dict_get ERROR_CODE block_num unknown_error_text],
                file_exists := False\<rparr>)
          else download_loop evs expected_block_num w1)"

text \<open>
  \<open>open(filename, 'wb')\<close> creates the file or empties it; \<open>os.remove\<close> in the ERROR
  branch unlinks the path while the handle is open, as POSIX allows.
\<close>

definition download_file :: "string \<Rightarrow> endpoint \<Rightarrow> event list \<Rightarrow> world \<Rightarrow> outcome \<times> world" where
  "download_file filename server_address evs w =
     (case send_request (OPCODE RRQ) filename DEFAULT_TRANSFER_MODE server_address w of
        Inl e \<Rightarrow> (Raised e, w)
      | Inr w1 \<Rightarrow> download_loop evs 1 (w1\<lparr>written := [], file_exists := True\<rparr>))"

subsection \<open>Upload\<close>

definition read_block :: "byte list \<Rightarrow> world \<Rightarrow> byte list \<times> world" where
  "read_block content w =
     (let data_block = take BLOCK_SIZE (drop (position w) content)
      in (data_block, w\<lparr>position := position w + length data_block\<rparr>))"

text \<open>
  Each turn of the loop reads a block and sends it before it receives. The handler
  \<open>except socket.timeout\<close> of the loop is never entered, because \<open>receive_data\<close> has
  caught the timeout already and returned the tuple of \<open>None\<close>s.
\<close>

fun upload_loop ::
  "byte list \<Rightarrow> endpoint \<Rightarrow> event list \<Rightarrow> int \<Rightarrow> world \<Rightarrow> outcome \<times> world" where
  "upload_loop content server_address [] block_num w =
     (case read_block content w of
        (data_block, w1) \<Rightarrow>
          (case send_data block_num data_block server_address w1 of
             Inl e \<Rightarrow> (Raised e, w1)
           | Inr w2 \<Rightarrow> (Blocked, w2)))"
| "upload_loop content server_address (ev # evs) block_num w =
     (case read_block content w of
        (data_block, w1) \<Rightarrow>
          (case send_data block_num data_block server_address w1 of
             Inl e \<Rightarrow> (Raised e, w1)
           | Inr w2 \<Rightarrow>
               (case receive_data ev block_num w2 of
                  (Inl e, w3) \<Rightarrow> (Raised e, w3)
                | (Inr None, w3) \<Rightarrow> upload_loop content server_address evs block_num w3
                | (Inr (Some (opcode, ack_block_num, _, _)), w3) \<Rightarrow>
                    if opcode = OPCODE ACK \<and> ack_block_num = block_num then
                      if length data_block < BLOCK_SIZE
                      then (Completed, w3\<lparr>printed := printed w3 @ [upload_done_text]\<rparr>)
                      else upload_loop content server_address evs (block_num + 1) w3
                    else upload_loop content server_address evs block_num w3)))"

text \<open>The source file is \<open>None\<close> when \<open>os.path.exists\<close> is false.\<close>

definition upload_file ::
  "string \<Rightarrow> byte list option \<Rightarrow> endpoint \<Rightarrow> event list \<Rightarrow> world \<Rightarrow> outcome \<times> world" where
  "upload_file filename source server_address evs w =
     (case source of
        None \<Rightarrow> (Raised (SystemExit 1), w\<lparr>printed := printed w @ [missing_text filename]\<rparr>)
      | Some content \<Rightarrow>
          (case send_request (OPCODE WRQ) filename DEFAULT_TRANSFER_MODE server_address w of
             Inl e \<Rightarrow> (Raised e, w)
           | Inr w1 \<Rightarrow> upload_loop content server_address evs 1 (w1\<lparr>position := 0\<rparr>)))"

definition world0 :: world where
  "world0 = \<lparr>sent = [], printed = [], written = [], file_exists = False, position = 0\<rparr>"

subsection \<open>Notions used in the statements\<close>

text \<open>
  \<open>is_data ev n payload src\<close>: the event is a datagram that \<open>receive_data\<close> decodes to
  a DATA message with block number \<open>n\<close>, the payload and the source endpoint given.
\<close>

definition is_data :: "event \<Rightarrow> int \<Rightarrow> byte list \<Rightarrow> endpoint \<Rightarrow> bool" where
  "is_data ev n payload src =
     (fst (receive_data ev n world0) = Inr (Some (OPCODE DATA, n, payload, src)))"

text \<open>
  \<open>blocks_from n xs\<close>: the events of \<open>xs\<close>, each with its payload and source, are DATA
  messages numbered \<open>n\<close>, \<open>n + 1\<close>, ... without a gap, every payload a full block except
  the last, which is shorter.
\<close>

fun blocks_from :: "int \<Rightarrow> (event \<times> byte list \<times> endpoint) list \<Rightarrow> bool" where
  "blocks_from n [] = False"
| "blocks_from n [(ev, payload, src)] =
     (is_data ev n payload src \<and> length payload < BLOCK_SIZE)"
| "blocks_from n ((ev, payload, src) # rest) =
     (is_data ev n payload src \<and> length payload = BLOCK_SIZE \<and> blocks_from (n + 1) rest)"

text \<open>
  \<open>acks_from n xs\<close>: the acknowledgements of the blocks \<open>n\<close>, \<open>n + 1\<close>, ..., one for
  each element of \<open>xs\<close> and each addressed to the source of its datagram.
\<close>

fun acks_from ::
  "int \<Rightarrow> (event \<times> byte list \<times> endpoint) list \<Rightarrow> (byte list \<times> endpoint) list" where
  "acks_from n [] = []"
| "acks_from n ((ev, payload, src) # rest) =
     ([0, 4, word_of_int (n div 256), word_of_int (n mod 256)], src) # acks_from (n + 1) rest"

text \<open>The same event as if it had come from another endpoint.\<close>

fun retarget :: "(endpoint \<Rightarrow> endpoint) \<Rightarrow> event \<Rightarrow> event" where
  "retarget f Timeout = Timeout"
| "retarget f (Datagram d src) = Datagram d (f src)"

text \<open>
  Two states that differ at most in where the datagrams sent were addressed to.
\<close>

definition same_but_destinations :: "world \<Rightarrow> world \<Rightarrow> bool" where
  "same_but_destinations w v =
     (map fst (sent w) = map fst (sent v) \<and> printed w = printed v \<and> written w = written v \<and>
      file_exists w = file_exists v \<and> position w = position v)"

section \<open>Basic facts\<close>

lemma receive_data_Timeout:
  "receive_data Timeout m w = (Inr None, w\<lparr>printed := printed w @ [timeout_text]\<rparr>)"
  by (simp add: receive_data_def)

lemma receive_data_Datagram:
  "receive_data (Datagram (a # b # c # d # rest) src) m w =
     (Inr (Some (unpack_h a b, unpack_h c d, take 512 rest, src)), w)"
  by (simp add: receive_data_def)

lemma unpack_h_small:
  "unpack_h 0 1 = 1" "unpack_h 0 2 = 2" "unpack_h 0 3 = 3" "unpack_h 0 4 = 4"
  "unpack_h 0 5 = 5" "unpack_h 0 8 = 8"
  by (simp_all add: unpack_h_def)

lemma download_loop_Timeout:
  "download_loop (Timeout # evs) n w =
     download_loop evs n (w\<lparr>printed := printed w @ [timeout_text]\<rparr>)"
  by (simp add: receive_data_Timeout)

lemma download_loop_error_datagram:
  "download_loop (Datagram (0 # 5 # a # b # rest) src # evs) n w =
     (Aborted,
      w\<lparr>printed := printed w @ [dict_get ERROR_CODE (unpack_h a b) unknown_error_text],
        file_exists := False\<rparr>)"
  by (simp add: receive_data_Datagram unpack_h_small)

lemma dict_get_ERROR_CODE_1: "dict_get ERROR_CODE 1 d = ''File not found.''"
  by (simp add: dict_get_def ERROR_CODE_def)

lemma dict_get_ERROR_CODE_unknown: "c < 0 \<or> 7 < c \<Longrightarrow> dict_get ERROR_CODE c d = d"
  by (auto simp add: dict_get_def ERROR_CODE_def)

declare download_loop.simps(2) [simp del]

lemma unpack_h_range: "- 32768 \<le> unpack_h a b \<and> unpack_h a b \<le> 32767"
proof -
  have main: "\<And>x y :: int. 0 \<le> x \<Longrightarrow> x < 256 \<Longrightarrow> 0 \<le> y \<Longrightarrow> y < 256 \<Longrightarrow>
      - 32768 \<le> (if 32768 \<le> x * 256 + y then x * 256 + y - 65536 else x * 256 + y) \<and>
      (if 32768 \<le> x * 256 + y then x * 256 + y - 65536 else x * 256 + y) \<le> 32767"
    by auto
  have "uint a < 256" "uint b < 256"
    using uint_lt2p[of a] uint_lt2p[of b] by simp_all
  then show ?thesis
    using main[of "uint a" "uint b"] by (simp add: unpack_h_def Let_def)
qed

lemma unpack_hh_Inr:
  "unpack_hh bs = Inr (x, y) \<Longrightarrow>
   \<exists>a b c d. bs = [a, b, c, d] \<and> x = unpack_h a b \<and> y = unpack_h c d"
  by (erule unpack_hh.elims) auto

lemma unpack_hh_range:
  "unpack_hh bs = Inr (x, y) \<Longrightarrow> - 32768 \<le> y \<and> y \<le> 32767"
  using unpack_hh_Inr unpack_h_range by blast

text \<open>A reply does not depend on the state, and leaves it as it is.\<close>

lemma receive_data_reply:
  assumes "fst (receive_data ev m w) = Inr (Some r)"
  shows "receive_data ev m' w' = (Inr (Some r), w')"
  using assms
  by (cases ev) (auto simp: receive_data_def Let_def split: sum.splits prod.splits)

lemma receive_data_reply_range:
  assumes "fst (receive_data ev m w) = Inr (Some (opc, blk, p, src))"
  shows "- 32768 \<le> blk \<and> blk \<le> 32767 \<and> length p \<le> 512"
  using assms
  by (cases ev)
    (auto simp: receive_data_def Let_def split: sum.splits prod.splits dest: unpack_hh_range)

lemma receive_data_keeps:
  "written (snd (receive_data ev m w)) = written w"
  "sent (snd (receive_data ev m w)) = sent w"
  "file_exists (snd (receive_data ev m w)) = file_exists w"
  by (cases ev; simp add: receive_data_def Let_def split: sum.splits prod.splits)+

lemma is_data_receive:
  "is_data ev n payload src \<Longrightarrow> receive_data ev m w = (Inr (Some (3, n, payload, src)), w)"
  unfolding is_data_def using receive_data_reply by fastforce

lemma is_data_range:
  "is_data ev n payload src \<Longrightarrow> - 32768 \<le> n \<and> n \<le> 32767 \<and> length payload \<le> 512"
  unfolding is_data_def using receive_data_reply_range by blast

lemma is_data_Datagram:
  "is_data (Datagram (0 # 3 # c # d # rest) src) n payload src' \<longleftrightarrow>
     unpack_h c d = n \<and> payload = take 512 rest \<and> src' = src"
  by (auto simp: is_data_def receive_data_Datagram unpack_h_small)

lemma send_ack_ok:
  "- 32768 \<le> n \<Longrightarrow> n \<le> 32767 \<Longrightarrow>
   send_ack n src w =
     Inr (w\<lparr>sent := sent w @ [([0, 4, word_of_int (n div 256), word_of_int (n mod 256)], src)]\<rparr>)"
  by (simp add: send_ack_def pack_hh_def pack_h_def)

text \<open>One turn of the download loop, by the kind of the event.\<close>

lemma download_loop_accept:
  assumes "is_data ev n payload src"
  shows "download_loop (ev # evs) n w =
     (if length payload < 512
      then (Completed,
            w\<lparr>written := written w @ payload,
              sent := sent w @ [([0, 4, word_of_int (n div 256), word_of_int (n mod 256)], src)],
              printed := printed w @ [download_done_text]\<rparr>)
      else download_loop evs (n + 1)
            (w\<lparr>written := written w @ payload,
               sent := sent w @
                 [([0, 4, word_of_int (n div 256), word_of_int (n mod 256)], src)]\<rparr>))"
  using is_data_range[OF assms]
  by (simp add: download_loop.simps(2) is_data_receive[OF assms] send_ack_ok BLOCK_SIZE_def
      Let_def)

lemma download_loop_discard:
  assumes "\<not> (unpack_h a b = 3 \<and> unpack_h c d = n)" "unpack_h a b \<noteq> 5"
  shows "download_loop (Datagram (a # b # c # d # rest) src # evs) n w = download_loop evs n w"
  using assms by (auto simp add: download_loop.simps(2) receive_data_Datagram)

lemma download_loop_timeouts:
  "download_loop (replicate k Timeout) n w =
     (Blocked, w\<lparr>printed := printed w @ replicate k timeout_text\<rparr>)"
  by (induction k arbitrary: w) (simp_all add: download_loop_Timeout replicate_app_Cons_same)

lemma blocks_from_Cons:
  "is_data ev n payload src \<Longrightarrow> length payload = BLOCK_SIZE \<Longrightarrow> blocks_from (n + 1) rest \<Longrightarrow>
   blocks_from n ((ev, payload, src) # rest)"
  by (cases rest) auto

lemma download_file_start:
  "download_file filename server_address evs w =
     download_loop evs 1
       (w\<lparr>sent := sent w @
            [([0, 1] @ encode filename @ [0] @ encode ''octet'' @ [0], server_address)],
          written := [], file_exists := True\<rparr>)"
  by (simp add: download_file_def send_request_def pack_h_def DEFAULT_TRANSFER_MODE_def)

lemma download_loop_other_block:
  assumes "is_data ev k payload src" "k \<noteq> n"
  shows "download_loop (ev # evs) n w = download_loop evs n w"
  using assms(2) by (simp add: download_loop.simps(2) is_data_receive[OF assms(1)])

lemma download_loop_short_datagram:
  "length d < 4 \<Longrightarrow> download_loop (Datagram d src # evs) n w = (Raised StructError, w)"
proof -
  assume "length d < 4"
  then have "unpack_hh (take 4 (take 516 d)) = Inl StructError"
    by (cases d rule: unpack_hh.cases) auto
  then show ?thesis
    by (simp add: download_loop.simps(2) receive_data_def)
qed

text \<open>
  A download that completes has accepted a run of consecutive blocks, in the order of
  their arrival, and has written and acknowledged exactly those.
\<close>

lemma download_loop_Completed:
  "download_loop evs n w = (Completed, w') \<Longrightarrow>
   \<exists>xs. blocks_from n xs \<and> subseq (map fst xs) evs \<and>
        written w' = written w @ concat (map (\<lambda>x. fst (snd x)) xs) \<and>
        sent w' = sent w @ acks_from n xs \<and> file_exists w' = file_exists w"
proof (induction evs arbitrary: n w)
  case Nil
  then show ?case by simp
next
  case (Cons ev evs)
  obtain r w1 where rd: "receive_data ev n w = (r, w1)"
    by (cases "receive_data ev n w") auto
  have keep: "written w1 = written w" "sent w1 = sent w" "file_exists w1 = file_exists w"
    using receive_data_keeps[of ev n w] rd by simp_all
  have skip: ?case if "download_loop evs n w1 = (Completed, w')"
  proof -
    from Cons.IH[OF that] obtain xs where
      "blocks_from n xs" "subseq (map fst xs) evs"
      "written w' = written w1 @ concat (map (\<lambda>x. fst (snd x)) xs)"
      "sent w' = sent w1 @ acks_from n xs" "file_exists w' = file_exists w1"
      by blast
    then show ?thesis using keep by (intro exI[of _ xs]) (simp add: list_emb_Cons)
  qed
  show ?case
  proof (cases r)
    case (Inl e)
    then show ?thesis using Cons.prems rd by (simp add: download_loop.simps(2))
  next
    case (Inr ro)
    show ?thesis
    proof (cases ro)
      case None
      then show ?thesis using Cons.prems rd Inr skip by (simp add: download_loop.simps(2))
    next
      case (Some rep)
      obtain opc blk p src where rep: "rep = (opc, blk, p, src)"
        by (cases rep) auto
      have fst_rd: "fst (receive_data ev n w) = Inr (Some (opc, blk, p, src))"
        using rd Inr Some rep by simp
      have w1: "w1 = w"
        using receive_data_reply[OF fst_rd, of n w] rd by simp
      consider (acc) "opc = 3 \<and> blk = n" | (err) "\<not> (opc = 3 \<and> blk = n)" "opc = 5"
        | (other) "\<not> (opc = 3 \<and> blk = n)" "opc \<noteq> 5"
        by blast
      then show ?thesis
      proof cases
        case acc
        then have isd: "is_data ev n p src"
          using fst_rd receive_data_reply[OF fst_rd, of n world0] by (simp add: is_data_def)
        note step = download_loop_accept[OF isd, of evs w]
        show ?thesis
        proof (cases "length p < 512")
          case True
          then have "w' = w\<lparr>written := written w @ p,
              sent := sent w @ [([0, 4, word_of_int (n div 256), word_of_int (n mod 256)], src)],
              printed := printed w @ [download_done_text]\<rparr>"
            using Cons.prems step by simp
          then show ?thesis
            using isd True by (intro exI[of _ "[(ev, p, src)]"]) (simp add: BLOCK_SIZE_def)
        next
          case False
          then have len: "length p = BLOCK_SIZE"
            using is_data_range[OF isd] by (simp add: BLOCK_SIZE_def)
          from False Cons.prems step have
            "download_loop evs (n + 1) (w\<lparr>written := written w @ p,
               sent := sent w @ [([0, 4, word_of_int (n div 256), word_of_int (n mod 256)], src)]\<rparr>)
             = (Completed, w')" by simp
          from Cons.IH[OF this] obtain xs where xs:
            "blocks_from (n + 1) xs" "subseq (map fst xs) evs"
            "written w' = (written w @ p) @ concat (map (\<lambda>x. fst (snd x)) xs)"
            "sent w' = (sent w @ [([0, 4, word_of_int (n div 256), word_of_int (n mod 256)], src)])
                @ acks_from (n + 1) xs"
            "file_exists w' = file_exists w"
            by auto
          show ?thesis
            using xs blocks_from_Cons[OF isd len xs(1)]
            by (intro exI[of _ "(ev, p, src) # xs"]) simp
        qed
      next
        case err
        then show ?thesis
          using Cons.prems rd Inr Some rep by (auto simp add: download_loop.simps(2))
      next
        case other
        then have "download_loop (ev # evs) n w = download_loop evs n w1"
          using rd Inr Some rep by (auto simp add: download_loop.simps(2))
        then show ?thesis using skip Cons.prems by simp
      qed
    qed
  qed
qed


text \<open>Packing a block number, and the upload loop at a number that cannot be packed.\<close>

declare upload_loop.simps [simp del]

lemma pack_h_fail: "n < - 32768 \<or> 32767 < n \<Longrightarrow> pack_h n = Inl StructError"
  by (auto simp: pack_h_def)

lemma send_data_ok:
  "- 32768 \<le> n \<Longrightarrow> n \<le> 32767 \<Longrightarrow>
   send_data n data_block a w =
     Inr (w\<lparr>sent := sent w @
       [([0, 3, word_of_int (n div 256), word_of_int (n mod 256)] @ data_block, a)]\<rparr>)"
  by (simp add: send_data_def pack_hh_def pack_h_def)

lemma send_data_fail:
  "n < - 32768 \<or> 32767 < n \<Longrightarrow> send_data n data_block a w = Inl StructError"
  by (auto simp add: send_data_def pack_hh_def pack_h_def)

lemma send_ack_fail:
  "n < - 32768 \<or> 32767 < n \<Longrightarrow> send_ack n a w = Inl StructError"
  by (auto simp add: send_ack_def pack_hh_def pack_h_def)

lemma wire_field:
  assumes "0 \<le> n" "n \<le> 32767"
  shows "uint (word_of_int (n div 256) :: byte) * 256 + uint (word_of_int (n mod 256) :: byte) = n"
proof -
  have q: "0 \<le> n div 256" "n div 256 < 256"
    using assms by auto
  have a: "uint (word_of_int (n div 256) :: byte) = n div 256"
    using q by (simp add: uint_word_of_int take_bit_eq_mod)
  have b: "uint (word_of_int (n mod 256) :: byte) = n mod 256"
    by (simp add: uint_word_of_int take_bit_eq_mod)
  show ?thesis unfolding a b by simp
qed

lemma upload_loop_raise:
  "n < - 32768 \<or> 32767 < n \<Longrightarrow>
   upload_loop content a evs n w =
     (Raised StructError,
      w\<lparr>position := position w + length (take 512 (drop (position w) content))\<rparr>)"
  by (cases evs) (simp_all add: upload_loop.simps read_block_def send_data_fail BLOCK_SIZE_def)

text \<open>One turn of the upload loop, by the kind of the event.\<close>

lemma upload_file_start:
  "upload_file filename (Some content) a evs w =
     upload_loop content a evs 1
       (w\<lparr>sent := sent w @ [([0, 2] @ encode filename @ [0] @ encode ''octet'' @ [0], a)],
          position := 0\<rparr>)"
  by (simp add: upload_file_def send_request_def pack_h_def DEFAULT_TRANSFER_MODE_def)

lemma upload_loop_Nil:
  assumes "- 32768 \<le> n" "n \<le> 32767"
  shows "upload_loop content a [] n w =
     (Blocked,
      w\<lparr>position := position w + length (take 512 (drop (position w) content)),
        sent := sent w @
          [([0, 3, word_of_int (n div 256), word_of_int (n mod 256)] @
            take 512 (drop (position w) content), a)]\<rparr>)"
  using assms by (simp add: upload_loop.simps read_block_def send_data_ok BLOCK_SIZE_def)

lemma upload_loop_Timeout:
  assumes "- 32768 \<le> n" "n \<le> 32767"
  shows "upload_loop content a (Timeout # evs) n w =
     upload_loop content a evs n
       (w\<lparr>position := position w + length (take 512 (drop (position w) content)),
          sent := sent w @
            [([0, 3, word_of_int (n div 256), word_of_int (n mod 256)] @
              take 512 (drop (position w) content), a)],
          printed := printed w @ [timeout_text]\<rparr>)"
  using assms
  by (simp add: upload_loop.simps read_block_def send_data_ok BLOCK_SIZE_def
      receive_data_Timeout)

lemma upload_loop_Datagram:
  assumes "- 32768 \<le> n" "n \<le> 32767"
  shows "upload_loop content a (Datagram (x # y # c # d # rest) src # evs) n w =
     (if unpack_h x y = 4 \<and> unpack_h c d = n
      then if length (take 512 (drop (position w) content)) < 512
        then (Completed,
          w\<lparr>position := position w + length (take 512 (drop (position w) content)),
            sent := sent w @
              [([0, 3, word_of_int (n div 256), word_of_int (n mod 256)] @
                take 512 (drop (position w) content), a)],
            printed := printed w @ [upload_done_text]\<rparr>)
        else upload_loop content a evs (n + 1)
          (w\<lparr>position := position w + length (take 512 (drop (position w) content)),
             sent := sent w @
               [([0, 3, word_of_int (n div 256), word_of_int (n mod 256)] @
                 take 512 (drop (position w) content), a)]\<rparr>)
      else upload_loop content a evs n
        (w\<lparr>position := position w + length (take 512 (drop (position w) content)),
           sent := sent w @
             [([0, 3, word_of_int (n div 256), word_of_int (n mod 256)] @
               take 512 (drop (position w) content), a)]\<rparr>))"
  using assms
  by (simp add: upload_loop.simps read_block_def send_data_ok BLOCK_SIZE_def
      receive_data_Datagram)

text \<open>Neither loop looks at the source endpoint of what it receives.\<close>

lemma receive_data_retarget_Inl:
  "fst (receive_data ev m w) = Inl e \<Longrightarrow>
   receive_data ev m' w' = (Inl e, w') \<and> receive_data (retarget f ev) m' w' = (Inl e, w')"
  by (cases ev) (auto simp: receive_data_def Let_def split: sum.splits prod.splits)

lemma receive_data_retarget_None:
  "fst (receive_data ev m w) = Inr None \<Longrightarrow> ev = Timeout"
  by (cases ev) (auto simp: receive_data_def Let_def split: sum.splits prod.splits)

lemma receive_data_retarget_Some:
  "fst (receive_data ev m w) = Inr (Some (opc, blk, p, src)) \<Longrightarrow>
   receive_data (retarget f ev) m' w' = (Inr (Some (opc, blk, p, f src)), w')"
  by (cases ev) (auto simp: receive_data_def Let_def split: sum.splits prod.splits)

lemma upload_loop_retarget:
  "upload_loop content a (map (retarget f) evs) n w = upload_loop content a evs n w"
proof (induction evs arbitrary: n w)
  case Nil
  then show ?case by simp
next
  case (Cons ev evs)
  obtain blk w1 where rb: "read_block content w = (blk, w1)"
    by (cases "read_block content w") auto
  show ?case
  proof (cases "send_data n blk a w1")
    case (Inl e)
    then show ?thesis by (simp add: upload_loop.simps rb)
  next
    case (Inr w2)
    obtain r w3 where rd: "receive_data ev n w2 = (r, w3)"
      by (cases "receive_data ev n w2") auto
    show ?thesis
    proof (cases r)
      case (Inl e)
      then show ?thesis
        using rd receive_data_retarget_Inl[of ev n w2 e n w2 f] Inr rb
        by (simp add: upload_loop.simps)
    next
      case r: (Inr ro)
      show ?thesis
      proof (cases ro)
        case None
        then have "ev = Timeout"
          using rd r receive_data_retarget_None[of ev n w2] by simp
        then show ?thesis
          using Cons.IH by (simp add: upload_loop.simps rb Inr receive_data_Timeout)
      next
        case (Some rep)
        obtain opc blkn p src where rep: "rep = (opc, blkn, p, src)"
          by (cases rep) auto
        have "fst (receive_data ev n w2) = Inr (Some (opc, blkn, p, src))"
          using rd r Some rep by simp
        from receive_data_retarget_Some[OF this, of f n w2] receive_data_reply[OF this, of n w2]
        show ?thesis
          using Cons.IH by (simp add: upload_loop.simps rb Inr)
      qed
    qed
  qed
qed

lemma upload_loop_destinations:
  "snd ` set (sent (snd (upload_loop content a evs n w))) \<subseteq> insert a (snd ` set (sent w))"
proof (induction evs arbitrary: n w)
  case Nil
  show ?case
    by (auto simp: upload_loop.simps read_block_def Let_def send_data_def
        split: sum.splits prod.splits)
next
  case (Cons ev evs)
  obtain blk w1 where rb: "read_block content w = (blk, w1)"
    by (cases "read_block content w") auto
  then have w1: "sent w1 = sent w"
    by (auto simp: read_block_def Let_def)
  show ?case
  proof (cases "send_data n blk a w1")
    case (Inl e)
    then show ?thesis using w1 by (auto simp add: upload_loop.simps rb)
  next
    case (Inr w2)
    then have w2: "snd ` set (sent w2) \<subseteq> insert a (snd ` set (sent w))"
      using w1 by (auto simp: send_data_def split: sum.splits)
    obtain r w3 where rd: "receive_data ev n w2 = (r, w3)"
      by (cases "receive_data ev n w2") auto
    then have w3: "sent w3 = sent w2"
      using receive_data_keeps(2)[of ev n w2] by simp
    have step: "snd ` set (sent (snd (upload_loop content a evs k w3))) \<subseteq>
        insert a (snd ` set (sent w))" for k
      using Cons.IH[of k w3] w3 w2 by auto
    show ?thesis
      using step w2 w3
      by (auto simp add: upload_loop.simps rb Inr rd split: sum.splits option.splits)
  qed
qed


lemma download_loop_retarget:
  "same_but_destinations w v \<Longrightarrow>
   fst (download_loop (map (retarget f) evs) n w) = fst (download_loop evs n v) \<and>
   same_but_destinations (snd (download_loop (map (retarget f) evs) n w))
     (snd (download_loop evs n v))"
proof (induction evs arbitrary: n w v)
  case Nil
  then show ?case by simp
next
  case (Cons ev evs)
  obtain r v1 where rd: "receive_data ev n v = (r, v1)"
    by (cases "receive_data ev n v") auto
  show ?case
  proof (cases r)
    case (Inl e)
    then have "fst (receive_data ev n v) = Inl e"
      using rd by simp
    from receive_data_retarget_Inl[OF this, of n w f] receive_data_retarget_Inl[OF this, of n v f]
    show ?thesis
      using Cons.prems by (simp add: download_loop.simps(2))
  next
    case r: (Inr ro)
    show ?thesis
    proof (cases ro)
      case None
      then have ev: "ev = Timeout"
        using rd r receive_data_retarget_None[of ev n v] by simp
      have "same_but_destinations (w\<lparr>printed := printed w @ [timeout_text]\<rparr>)
          (v\<lparr>printed := printed v @ [timeout_text]\<rparr>)"
        using Cons.prems by (simp add: same_but_destinations_def)
      from Cons.IH[OF this] show ?thesis
        by (simp add: ev download_loop_Timeout)
    next
      case (Some rep)
      obtain opc blk p src where rep: "rep = (opc, blk, p, src)"
        by (cases rep) auto
      have fst_rd: "fst (receive_data ev n v) = Inr (Some (opc, blk, p, src))"
        using rd r Some rep by simp
      note rw = receive_data_retarget_Some[OF fst_rd, of f n w]
      note rv = receive_data_reply[OF fst_rd, of n v]
      note rng = receive_data_reply_range[OF fst_rd]
      consider (acc) "opc = 3 \<and> blk = n" | (err) "\<not> (opc = 3 \<and> blk = n)" "opc = 5"
        | (other) "\<not> (opc = 3 \<and> blk = n)" "opc \<noteq> 5"
        by blast
      then show ?thesis
      proof cases
        case acc
        let ?w = "w\<lparr>written := written w @ p,
            sent := sent w @ [([0, 4, word_of_int (n div 256), word_of_int (n mod 256)], f src)]\<rparr>"
        let ?v = "v\<lparr>written := written v @ p,
            sent := sent v @ [([0, 4, word_of_int (n div 256), word_of_int (n mod 256)], src)]\<rparr>"
        have same: "same_but_destinations ?w ?v"
          using Cons.prems by (simp add: same_but_destinations_def)
        show ?thesis
        proof (cases "length p < 512")
          case True
          then show ?thesis
            using acc rng same
            by (simp add: download_loop.simps(2) rw rv send_ack_ok BLOCK_SIZE_def Let_def
                same_but_destinations_def)
        next
          case False
          then show ?thesis
            using acc rng Cons.IH[OF same, of "n + 1"]
            by (simp add: download_loop.simps(2) rw rv send_ack_ok BLOCK_SIZE_def Let_def)
        qed
      next
        case err
        then show ?thesis
          using Cons.prems
          by (auto simp add: download_loop.simps(2) rw rv same_but_destinations_def)
      next
        case other
        then show ?thesis
          using Cons.IH[OF Cons.prems, of n]
          by (auto simp add: download_loop.simps(2) rw rv)
      qed
    qed
  qed
qed

section \<open>Errors reported by the server during a download\<close>

text \<open>
  Claim C9. During a download, an ERROR message with error code 1 ends the transfer as a
  failure: the loop stops in its ERROR branch, the destination file is removed and the
  line printed is exactly "File not found."; an error code outside the table (below 0 or
  above 7) is reported with the generic unknown-error line instead. This holds at every
  expected block number and in every state of the transfer.
\<close>

theorem download_error_translation:
  "download_loop (Datagram (0 # 5 # 0 # 1 # msg) src # evs) n w =
     (Aborted, w\<lparr>printed := printed w @ [''File not found.''], file_exists := False\<rparr>) \<and>
   (unpack_h a b < 0 \<or> 7 < unpack_h a b \<longrightarrow>
    download_loop (Datagram (0 # 5 # a # b # msg) src # evs) n w =
      (Aborted, w\<lparr>printed := printed w @ [unknown_error_text], file_exists := False\<rparr>))"
  by (simp add: download_loop_error_datagram unpack_h_small dict_get_ERROR_CODE_1
      dict_get_ERROR_CODE_unknown del: download_loop.simps)

text \<open>
  The whole of \<open>download_file\<close> on a server that answers the request with ERROR 1, and
  on one that answers with the unknown code 8.
\<close>

theorem download_error_translation_witness:
  "download_file ''a.txt'' (''10.0.0.1'', 69)
     [Datagram [0, 5, 0, 1, 110, 111, 0] (''10.0.0.1'', 69)] world0 =
     (Aborted,
      \<lparr>sent = [([0, 1, 97, 46, 116, 120, 116, 0, 111, 99, 116, 101, 116, 0], (''10.0.0.1'', 69))],
       printed = [''File not found.''], written = [], file_exists = False, position = 0\<rparr>) \<and>
   (7 < unpack_h 0 8 \<and>
    download_file ''a.txt'' (''10.0.0.1'', 69)
     [Datagram [0, 5, 0, 8, 110, 111, 0] (''10.0.0.1'', 69)] world0 =
     (Aborted,
      \<lparr>sent = [([0, 1, 97, 46, 116, 120, 116, 0, 111, 99, 116, 101, 116, 0], (''10.0.0.1'', 69))],
       printed = [unknown_error_text], written = [], file_exists = False, position = 0\<rparr>))"
  using download_error_translation [of "[110, 111, 0]" "(''10.0.0.1'', 69)" "[]" 1 _ 0 8]
  by (simp add: download_file_def send_request_def pack_h_def encode_def
      DEFAULT_TRANSFER_MODE_def world0_def unpack_h_small del: download_loop.simps)

text \<open>
  Claim C10. During a download, a datagram whose first header field is the ERROR opcode
  (its first two bytes are 0 and 5, and the error code field follows)
  ends the transfer whichever endpoint it came from and whatever block is expected: the
  loop stops in its ERROR branch and the destination file is deleted, nothing is sent
  and nothing more is written. One such datagram from any sender therefore aborts the
  download and removes the partial file.
\<close>

theorem download_error_any_source_any_block:
  "fst (download_loop (Datagram (0 # 5 # a # b # rest) src # evs) n w) = Aborted \<and>
   \<not> file_exists (snd (download_loop (Datagram (0 # 5 # a # b # rest) src # evs) n w)) \<and>
   sent (snd (download_loop (Datagram (0 # 5 # a # b # rest) src # evs) n w)) = sent w \<and>
   written (snd (download_loop (Datagram (0 # 5 # a # b # rest) src # evs) n w)) = written w"
  by (simp add: download_loop_error_datagram del: download_loop.simps)

section \<open>What a completed download has written\<close>

text \<open>
  Claim C5. For every download that completes, the bytes written to the destination file
  are exactly the concatenation of the payloads of the accepted DATA messages, which
  are numbered 1, 2, ... without gap, duplicate or reordering, arrived in that order,
  and were each acknowledged to their sender; the file is still there. The transfer
  completes exactly at an accepted payload shorter than 512 bytes: an accepted DATA
  message with a shorter payload ends the loop at once, and one that is not shorter
  has exactly 512 bytes and makes the loop go on with the next block number. So a file
  of one block of 512 bytes followed by an empty block is complete after the empty block
  and not before.
\<close>

theorem download_completed_contents:
  "(download_file filename server_address evs w = (Completed, w') \<longrightarrow>
      (\<exists>xs. blocks_from 1 xs \<and> subseq (map fst xs) evs \<and>
            written w' = concat (map (\<lambda>x. fst (snd x)) xs) \<and>
            sent w' = sent w @
              [([0, 1] @ encode filename @ [0] @ encode ''octet'' @ [0], server_address)] @
              acks_from 1 xs \<and>
            file_exists w')) \<and>
   (is_data ev n payload src \<and> length payload < BLOCK_SIZE \<longrightarrow>
      download_loop (ev # evs) n w =
        (Completed,
         w\<lparr>written := written w @ payload, sent := sent w @ acks_from n [(ev, payload, src)],
           printed := printed w @ [download_done_text]\<rparr>)) \<and>
   (is_data ev n payload src \<and> \<not> length payload < BLOCK_SIZE \<longrightarrow>
      length payload = BLOCK_SIZE \<and>
      download_loop (ev # evs) n w =
        download_loop evs (n + 1)
          (w\<lparr>written := written w @ payload,
             sent := sent w @ acks_from n [(ev, payload, src)]\<rparr>))"
proof (intro conjI impI)
  assume run: "download_file filename server_address evs w = (Completed, w')"
  define w0 where "w0 = w\<lparr>sent := sent w @
      [([0, 1] @ encode filename @ [0] @ encode ''octet'' @ [0], server_address)],
      written := [], file_exists := True\<rparr>"
  have "download_loop evs 1 w0 = (Completed, w')"
    using run by (simp add: download_file_def send_request_def pack_h_def w0_def
        DEFAULT_TRANSFER_MODE_def)
  from download_loop_Completed[OF this] show
    "\<exists>xs. blocks_from 1 xs \<and> subseq (map fst xs) evs \<and>
            written w' = concat (map (\<lambda>x. fst (snd x)) xs) \<and>
            sent w' = sent w @
              [([0, 1] @ encode filename @ [0] @ encode ''octet'' @ [0], server_address)] @
              acks_from 1 xs \<and>
            file_exists w'"
    by (auto simp: w0_def)
next
  assume a: "is_data ev n payload src \<and> length payload < BLOCK_SIZE"
  then show "download_loop (ev # evs) n w =
        (Completed,
         w\<lparr>written := written w @ payload, sent := sent w @ acks_from n [(ev, payload, src)],
           printed := printed w @ [download_done_text]\<rparr>)"
    using download_loop_accept[of ev n payload src evs w] by (simp add: BLOCK_SIZE_def)
next
  assume a: "is_data ev n payload src \<and> \<not> length payload < BLOCK_SIZE"
  then show "length payload = BLOCK_SIZE"
    using is_data_range[of ev n payload src] by (simp add: BLOCK_SIZE_def)
next
  assume a: "is_data ev n payload src \<and> \<not> length payload < BLOCK_SIZE"
  then show "download_loop (ev # evs) n w =
        download_loop evs (n + 1)
          (w\<lparr>written := written w @ payload,
             sent := sent w @ acks_from n [(ev, payload, src)]\<rparr>)"
    using download_loop_accept[of ev n payload src evs w] by (simp add: BLOCK_SIZE_def)
qed


text \<open>
  The file of one full block and one empty block: after the first block the loop is
  still receiving, after the second it has completed.
\<close>

theorem download_completed_contents_witness:
  "download_file ''a.bin'' (''10.0.0.1'', 69)
     [Datagram (0 # 3 # 0 # 1 # replicate 512 7) (''10.0.0.1'', 3000),
      Datagram [0, 3, 0, 2] (''10.0.0.1'', 3000)] world0 =
     (Completed,
      \<lparr>sent = [([0, 1, 97, 46, 98, 105, 110, 0, 111, 99, 116, 101, 116, 0], (''10.0.0.1'', 69)),
               ([0, 4, 0, 1], (''10.0.0.1'', 3000)), ([0, 4, 0, 2], (''10.0.0.1'', 3000))],
       printed = [download_done_text], written = replicate 512 7, file_exists = True,
       position = 0\<rparr>) \<and>
   (\<exists>xs. blocks_from 1 xs \<and>
      subseq (map fst xs)
        [Datagram (0 # 3 # 0 # 1 # replicate 512 7) (''10.0.0.1'', 3000),
         Datagram [0, 3, 0, 2] (''10.0.0.1'', 3000)] \<and>
      replicate 512 (7 :: byte) = concat (map (\<lambda>x. fst (snd x)) xs)) \<and>
   is_data (Datagram (0 # 3 # 0 # 1 # replicate 512 7) (''10.0.0.1'', 3000)) 1
     (replicate 512 7) (''10.0.0.1'', 3000) \<and>
   length (replicate 512 (7 :: byte)) = BLOCK_SIZE \<and>
   fst (download_loop [Datagram (0 # 3 # 0 # 1 # replicate 512 7) (''10.0.0.1'', 3000)] 1 world0)
     = Blocked \<and>
   is_data (Datagram [0, 3, 0, 2] (''10.0.0.1'', 3000)) 2 [] (''10.0.0.1'', 3000) \<and>
   fst (download_loop [Datagram [0, 3, 0, 2] (''10.0.0.1'', 3000)] 2 world0) = Completed"
proof -
  let ?E1 = "Datagram (0 # 3 # 0 # 1 # replicate 512 7) (''10.0.0.1'', 3000)"
  let ?E2 = "Datagram [0, 3, 0, 2] (''10.0.0.1'', 3000)"
  let ?W = "\<lparr>sent = [([0, 1, 97, 46, 98, 105, 110, 0, 111, 99, 116, 101, 116, 0], (''10.0.0.1'', 69)),
               ([0, 4, 0, 1], (''10.0.0.1'', 3000)), ([0, 4, 0, 2], (''10.0.0.1'', 3000))],
       printed = [download_done_text], written = replicate 512 (7 :: byte), file_exists = True,
       position = 0\<rparr>"
  have d1: "is_data ?E1 1 (replicate 512 7) (''10.0.0.1'', 3000)"
    by (simp add: is_data_Datagram unpack_h_small)
  have d2: "is_data ?E2 2 [] (''10.0.0.1'', 3000)"
    by (simp add: is_data_Datagram unpack_h_small)
  have run: "download_file ''a.bin'' (''10.0.0.1'', 69) [?E1, ?E2] world0 = (Completed, ?W)"
    by (simp add: download_file_def send_request_def pack_h_def encode_def
        DEFAULT_TRANSFER_MODE_def world0_def download_loop_accept[OF d1]
        download_loop_accept[OF d2])
  have p1: "\<exists>xs. blocks_from 1 xs \<and> subseq (map fst xs) [?E1, ?E2] \<and>
      replicate 512 (7 :: byte) = concat (map (\<lambda>x. fst (snd x)) xs)"
  proof -
    from download_completed_contents
      [of "''a.bin''" "(''10.0.0.1'', 69)" "[?E1, ?E2]" world0 ?W, THEN conjunct1, THEN mp, OF run]
    obtain xs where "blocks_from 1 xs" "subseq (map fst xs) [?E1, ?E2]"
      "written ?W = concat (map (\<lambda>x. fst (snd x)) xs)"
      by blast
    then show ?thesis by (intro exI[of _ xs]) simp
  qed
  have p2: "fst (download_loop [?E2] 2 world0) = Completed"
    using download_completed_contents [where ev = ?E2 and n = 2 and payload = "[]"
        and src = "(''10.0.0.1'', 3000)" and evs = "[]" and w = world0] d2
    by (simp add: BLOCK_SIZE_def)
  have p3: "length (replicate 512 (7 :: byte)) = BLOCK_SIZE \<and>
      fst (download_loop [?E1] 1 world0) = Blocked"
    using download_completed_contents [where ev = ?E1 and n = 1 and payload = "replicate 512 7"
        and src = "(''10.0.0.1'', 3000)" and evs = "[]" and w = world0] d1
    by (simp add: BLOCK_SIZE_def)
  show ?thesis using run p1 p2 p3 d1 d2 by blast
qed

section \<open>Timeouts, duplicates and stray datagrams during a download\<close>

text \<open>
  Claim C2, as amended. During a download, when the receive deadline elapses with no
  reply, the engine prints its retry notice and receives again with the same expected
  block number: nothing is sent (the request is not retried), nothing is written, and
  the transfer neither terminates nor is reported as a failure. Under timeouts alone it
  keeps waiting, however many there are, with the one request sent and the empty
  destination file in place.
\<close>

theorem download_timeout_keeps_waiting:
  "download_loop (Timeout # evs) n w =
     download_loop evs n (w\<lparr>printed := printed w @ [timeout_text]\<rparr>) \<and>
   download_loop (replicate k Timeout) n w =
     (Blocked, w\<lparr>printed := printed w @ replicate k timeout_text\<rparr>) \<and>
   download_file filename server_address (replicate k Timeout) w =
     (Blocked,
      w\<lparr>sent := sent w @
           [([0, 1] @ encode filename @ [0] @ encode ''octet'' @ [0], server_address)],
        written := [], file_exists := True,
        printed := printed w @ replicate k timeout_text\<rparr>)"
  by (simp add: download_loop_Timeout download_loop_timeouts download_file_start)

text \<open>
  The claim as stated fails: after a timeout the download is still receiving, and a
  block that arrives afterwards is accepted and completes the transfer.
\<close>

theorem download_timeout_not_terminal:
  "download_file ''a.txt'' (''10.0.0.1'', 69) [Timeout] world0 =
     (Blocked,
      \<lparr>sent = [([0, 1, 97, 46, 116, 120, 116, 0, 111, 99, 116, 101, 116, 0], (''10.0.0.1'', 69))],
       printed = [timeout_text], written = [], file_exists = True, position = 0\<rparr>) \<and>
   download_file ''a.txt'' (''10.0.0.1'', 69)
     [Timeout, Datagram [0, 3, 0, 1, 104, 105] (''10.0.0.1'', 3000)] world0 =
     (Completed,
      \<lparr>sent = [([0, 1, 97, 46, 116, 120, 116, 0, 111, 99, 116, 101, 116, 0], (''10.0.0.1'', 69)),
               ([0, 4, 0, 1], (''10.0.0.1'', 3000))],
       printed = [timeout_text, download_done_text], written = [104, 105], file_exists = True,
       position = 0\<rparr>)"
proof -
  have d: "is_data (Datagram [0, 3, 0, 1, 104, 105] (''10.0.0.1'', 3000)) 1 [104, 105]
      (''10.0.0.1'', 3000)"
    by (simp add: is_data_Datagram unpack_h_small)
  show ?thesis
    by (simp add: download_file_start download_loop_Timeout download_loop_accept[OF d]
        encode_def world0_def)
qed

text \<open>
  Claim C6, as amended. During a download, a DATA message for an already acknowledged
  block (block number below the expected one) is discarded: its payload is not appended
  to the file again, and nothing is sent, so no acknowledgement is repeated; the loop
  goes on receiving in the same state.
\<close>

theorem download_duplicate_data_discarded:
  "is_data ev k payload src \<Longrightarrow> k < n \<Longrightarrow>
   download_loop (ev # evs) n w = download_loop evs n w"
  using download_loop_other_block[of ev k payload src n evs w] by simp

theorem download_duplicate_data_discarded_witness:
  "is_data (Datagram (0 # 3 # 0 # 1 # replicate 512 7) (''10.0.0.1'', 3000)) 1
     (replicate 512 7) (''10.0.0.1'', 3000) \<and> (1 :: int) < 2 \<and>
   download_loop [Datagram (0 # 3 # 0 # 1 # replicate 512 7) (''10.0.0.1'', 3000)] 2 world0 =
     (Blocked, world0)"
proof -
  have d: "is_data (Datagram (0 # 3 # 0 # 1 # replicate 512 7) (''10.0.0.1'', 3000)) 1
     (replicate 512 7) (''10.0.0.1'', 3000)"
    by (simp add: is_data_Datagram unpack_h_small)
  show ?thesis
    using d download_duplicate_data_discarded[OF d, of 2 "[]" world0] by simp
qed

text \<open>
  The claim as stated fails: block 1 arrives twice, and the messages sent are the request
  and one acknowledgement of block 1, not two.
\<close>

theorem download_duplicate_data_no_ack:
  "download_file ''a.bin'' (''10.0.0.1'', 69)
     [Datagram (0 # 3 # 0 # 1 # replicate 512 7) (''10.0.0.1'', 3000),
      Datagram (0 # 3 # 0 # 1 # replicate 512 7) (''10.0.0.1'', 3000)] world0 =
     (Blocked,
      \<lparr>sent = [([0, 1, 97, 46, 98, 105, 110, 0, 111, 99, 116, 101, 116, 0], (''10.0.0.1'', 69)),
               ([0, 4, 0, 1], (''10.0.0.1'', 3000))],
       printed = [], written = replicate 512 7, file_exists = True, position = 0\<rparr>)"
proof -
  have d: "is_data (Datagram (0 # 3 # 0 # 1 # replicate 512 7) (''10.0.0.1'', 3000)) 1
     (replicate 512 7) (''10.0.0.1'', 3000)"
    by (simp add: is_data_Datagram unpack_h_small)
  show ?thesis
    by (simp add: download_file_start download_loop_accept[OF d]
        download_loop_other_block[OF d] encode_def world0_def)
qed

text \<open>
  Claim C7, as amended. During a download, a datagram of at least four bytes that is
  neither a DATA message with the expected block number nor an ERROR message (a wrong
  block number, or an opcode other than DATA and ERROR) raises no error and is discarded:
  nothing is written, sent or printed, and the loop goes on to the next receive. The
  source endpoint plays no part in this.
\<close>

theorem download_mismatch_discarded:
  "\<not> (unpack_h a b = 3 \<and> unpack_h c d = n) \<Longrightarrow> unpack_h a b \<noteq> 5 \<Longrightarrow>
   download_loop (Datagram (a # b # c # d # rest) src # evs) n w = download_loop evs n w"
  by (rule download_loop_discard)

theorem download_mismatch_discarded_witness:
  "\<not> (unpack_h 0 3 = 3 \<and> unpack_h 0 9 = 1) \<and> unpack_h 0 3 \<noteq> 5 \<and>
   download_loop [Datagram [0, 3, 0, 9, 65] (''10.0.0.1'', 3000)] 1 world0 = (Blocked, world0) \<and>
   \<not> (unpack_h 0 4 = 3 \<and> unpack_h 0 1 = 1) \<and> unpack_h 0 4 \<noteq> 5 \<and>
   download_loop [Datagram [0, 4, 0, 1] (''10.0.0.1'', 3000)] 1 world0 = (Blocked, world0)"
  using download_mismatch_discarded [of 0 3 0 9 1 "[65]" "(''10.0.0.1'', 3000)" "[]" world0]
    download_mismatch_discarded [of 0 4 0 1 1 "[]" "(''10.0.0.1'', 3000)" "[]" world0]
  by (simp add: unpack_h_small unpack_h_def)

text \<open>
  The claim as stated fails: a DATA message with the expected block number is accepted
  although it comes from another endpoint than the first reply, and a datagram of three
  bytes makes \<open>unpack\<close> raise \<open>struct.error\<close>, which nothing catches.
\<close>

theorem download_mismatch_counterexample:
  "download_file ''a.bin'' (''10.0.0.1'', 69)
     [Datagram (0 # 3 # 0 # 1 # replicate 512 7) (''10.0.0.1'', 3000),
      Datagram [0, 3, 0, 2, 9] (''10.9.9.9'', 4444)] world0 =
     (Completed,
      \<lparr>sent = [([0, 1, 97, 46, 98, 105, 110, 0, 111, 99, 116, 101, 116, 0], (''10.0.0.1'', 69)),
               ([0, 4, 0, 1], (''10.0.0.1'', 3000)), ([0, 4, 0, 2], (''10.9.9.9'', 4444))],
       printed = [download_done_text], written = replicate 512 7 @ [9], file_exists = True,
       position = 0\<rparr>) \<and>
   download_file ''a.bin'' (''10.0.0.1'', 69) [Datagram [0, 3, 0] (''10.0.0.1'', 3000)] world0 =
     (Raised StructError,
      \<lparr>sent = [([0, 1, 97, 46, 98, 105, 110, 0, 111, 99, 116, 101, 116, 0], (''10.0.0.1'', 69))],
       printed = [], written = [], file_exists = True, position = 0\<rparr>)"
proof -
  have d1: "is_data (Datagram (0 # 3 # 0 # 1 # replicate 512 7) (''10.0.0.1'', 3000)) 1
     (replicate 512 7) (''10.0.0.1'', 3000)"
    by (simp add: is_data_Datagram unpack_h_small)
  have d2: "is_data (Datagram [0, 3, 0, 2, 9] (''10.9.9.9'', 4444)) 2 [9] (''10.9.9.9'', 4444)"
    by (simp add: is_data_Datagram unpack_h_small)
  show ?thesis
    by (simp add: download_file_start download_loop_accept[OF d1] download_loop_accept[OF d2]
        download_loop_short_datagram encode_def world0_def)
qed

section \<open>Block numbers on the wire\<close>

text \<open>
  Claim C8, as amended. Block numbers in DATA and ACK messages are encoded as 16-bit
  big-endian integers and are not wrapped. For every block index from 1 to 32767 the
  engine builds and sends the DATA and the ACK message for that block, and the two bytes
  of the block field, read as an unsigned big-endian number, are the index itself. From
  65536 on, building the message raises \<open>struct.error\<close> instead of wrapping modulo
  65536: nothing is sent, and an upload that reaches such a block number ends with that
  exception.
\<close>

theorem block_number_encoding:
  "(1 \<le> n \<and> n \<le> 32767 \<longrightarrow>
      send_data n data_block a w =
        Inr (w\<lparr>sent := sent w @
          [([0, 3, word_of_int (n div 256), word_of_int (n mod 256)] @ data_block, a)]\<rparr>) \<and>
      send_ack n a w =
        Inr (w\<lparr>sent := sent w @
          [([0, 4, word_of_int (n div 256), word_of_int (n mod 256)], a)]\<rparr>) \<and>
      uint (word_of_int (n div 256) :: byte) * 256 + uint (word_of_int (n mod 256) :: byte) = n) \<and>
   (65536 \<le> n \<longrightarrow>
      send_data n data_block a w = Inl StructError \<and>
      send_ack n a w = Inl StructError \<and>
      fst (upload_loop content a evs n w) = Raised StructError \<and>
      sent (snd (upload_loop content a evs n w)) = sent w)"
  by (simp add: send_data_ok send_ack_ok wire_field send_data_fail send_ack_fail
      upload_loop_raise)

theorem block_number_encoding_witness:
  "(1 :: int) \<le> 300 \<and> (300 :: int) \<le> 32767 \<and>
   send_data 300 [7, 7] (''10.0.0.1'', 69) world0 =
     Inr (world0\<lparr>sent := [([0, 3, 1, 44, 7, 7], (''10.0.0.1'', 69))]\<rparr>) \<and>
   send_ack 300 (''10.0.0.1'', 69) world0 =
     Inr (world0\<lparr>sent := [([0, 4, 1, 44], (''10.0.0.1'', 69))]\<rparr>) \<and>
   (65536 :: int) \<le> 65536 \<and>
   fst (upload_loop [7, 7] (''10.0.0.1'', 69) [] 65536 world0) = Raised StructError"
  using block_number_encoding [of 300 "[7, 7]" "(''10.0.0.1'', 69)" world0 "[7, 7]" "[]"]
    block_number_encoding [of 65536 "[7, 7]" "(''10.0.0.1'', 69)" world0 "[7, 7]" "[]"]
  by (simp add: world0_def)

text \<open>
  The claim as stated fails at block 65536: the wire field would be 0, but neither
  message can be built, and the upload loop raises.
\<close>

theorem block_number_no_wrap:
  "send_data 65536 [7, 7] (''10.0.0.1'', 69) world0 = Inl StructError \<and>
   send_ack 65536 (''10.0.0.1'', 69) world0 = Inl StructError \<and>
   upload_loop [7, 7] (''10.0.0.1'', 69) [] 65536 world0 =
     (Raised StructError, world0\<lparr>position := 2\<rparr>)"
  by (simp add: send_data_fail send_ack_fail upload_loop_raise world0_def)

section \<open>Upload: what follows a timeout or an ERROR reply\<close>

text \<open>
  Claim C1 says that after a timeout the upload sends the same Data message again,
  with the payload it sent before, and reads no further from the source file until the
  block is acknowledged. The code does otherwise. A file of 600 bytes is uploaded, the
  first receive times out, then the acknowledgement of block 1 arrives: the second
  message sent is numbered 1 again but carries the last 88 bytes of the file instead of
  the first 512, the whole file has been read, and the upload reports completion.
\<close>

theorem upload_timeout_sends_next_chunk:
  "upload_file ''a.bin'' (Some (replicate 512 1 @ replicate 88 2)) (''10.0.0.1'', 69)
     [Timeout, Datagram [0, 4, 0, 1] (''10.0.0.1'', 3000)] world0 =
     (Completed,
      \<lparr>sent = [([0, 2, 97, 46, 98, 105, 110, 0, 111, 99, 116, 101, 116, 0], (''10.0.0.1'', 69)),
               ([0, 3, 0, 1] @ replicate 512 1, (''10.0.0.1'', 69)),
               ([0, 3, 0, 1] @ replicate 88 2, (''10.0.0.1'', 69))],
       printed = [timeout_text, upload_done_text], written = [], file_exists = False,
       position = 600\<rparr>)"
  by (simp add: upload_file_start upload_loop_Timeout upload_loop_Datagram unpack_h_small
      encode_def world0_def)

text \<open>
  Claim C4 says that an ERROR reply ends an upload as a failure and that no Data block is
  sent after it. The code does otherwise. The same file is uploaded and the server
  answers block 1 with ERROR 2: the loop reads on and sends another Data message,
  prints nothing, and is still receiving.
\<close>

theorem upload_error_reply_ignored:
  "upload_file ''a.bin'' (Some (replicate 512 1 @ replicate 88 2)) (''10.0.0.1'', 69)
     [Datagram [0, 5, 0, 2, 110, 111, 0] (''10.0.0.1'', 3000)] world0 =
     (Blocked,
      \<lparr>sent = [([0, 2, 97, 46, 98, 105, 110, 0, 111, 99, 116, 101, 116, 0], (''10.0.0.1'', 69)),
               ([0, 3, 0, 1] @ replicate 512 1, (''10.0.0.1'', 69)),
               ([0, 3, 0, 1] @ replicate 88 2, (''10.0.0.1'', 69))],
       printed = [], written = [], file_exists = False, position = 600\<rparr>)"
  by (simp add: upload_file_start upload_loop_Nil upload_loop_Datagram unpack_h_small
      encode_def world0_def)

section \<open>Endpoints\<close>

text \<open>
  Claim C3, as amended. No endpoint is locked in either direction. In a download, a DATA
  message with the expected block number is accepted whatever its source endpoint, and
  its acknowledgement is sent to the source of that very datagram; outcome, file
  contents, printed lines and the bytes of the messages sent are the same whatever the
  source endpoints of the datagrams received. In an upload, every Data message is sent to
  the server address given at the start, also after replies have arrived from elsewhere,
  and the run does not depend on the source endpoints of the replies at all.
\<close>

theorem no_endpoint_locking:
  "(is_data ev n payload src \<longrightarrow>
      sent (snd (download_loop [ev] n w)) = sent w @ acks_from n [(ev, payload, src)] \<and>
      written (snd (download_loop [ev] n w)) = written w @ payload) \<and>
   fst (download_loop (map (retarget f) evs) n w) = fst (download_loop evs n w) \<and>
   same_but_destinations (snd (download_loop (map (retarget f) evs) n w))
     (snd (download_loop evs n w)) \<and>
   upload_loop content a (map (retarget f) evs) n w = upload_loop content a evs n w \<and>
   snd ` set (sent (snd (upload_loop content a evs n w))) \<subseteq> insert a (snd ` set (sent w))"
proof -
  have "same_but_destinations w w"
    by (simp add: same_but_destinations_def)
  from download_loop_retarget[OF this, of f evs n]
  show ?thesis
    using upload_loop_retarget[of content a f evs n w] upload_loop_destinations[of content a evs n w]
    by (auto simp add: download_loop_accept)
qed

theorem no_endpoint_locking_witness:
  "is_data (Datagram [0, 3, 0, 2, 9] (''10.9.9.9'', 4444)) 2 [9] (''10.9.9.9'', 4444) \<and>
   sent (snd (download_loop [Datagram [0, 3, 0, 2, 9] (''10.9.9.9'', 4444)] 2
      (world0\<lparr>sent := [([0, 4, 0, 1], (''10.0.0.1'', 3000))]\<rparr>))) =
     [([0, 4, 0, 1], (''10.0.0.1'', 3000)), ([0, 4, 0, 2], (''10.9.9.9'', 4444))] \<and>
   written (snd (download_loop [Datagram [0, 3, 0, 2, 9] (''10.9.9.9'', 4444)] 2
      (world0\<lparr>sent := [([0, 4, 0, 1], (''10.0.0.1'', 3000))]\<rparr>))) = [9]"
proof -
  have d: "is_data (Datagram [0, 3, 0, 2, 9] (''10.9.9.9'', 4444)) 2 [9] (''10.9.9.9'', 4444)"
    by (simp add: is_data_Datagram unpack_h_small)
  show ?thesis
    using d no_endpoint_locking [of "Datagram [0, 3, 0, 2, 9] (''10.9.9.9'', 4444)" 2 "[9]"
        "(''10.9.9.9'', 4444)" "world0\<lparr>sent := [([0, 4, 0, 1], (''10.0.0.1'', 3000))]\<rparr>"
        id "[]" "[]" "(''10.0.0.1'', 69)"]
    by (simp add: world0_def)
qed

text \<open>
  The claim as stated fails in both directions. In the upload, the first reply comes from
  port 3000 and block 2 is still sent to port 69, and the acknowledgement of block 2 is
  accepted from another host. In the download, block 2 is accepted from another endpoint
  than block 1, written to the file and acknowledged to that endpoint.
\<close>

theorem endpoint_not_locked:
  "upload_file ''a.bin'' (Some (replicate 512 1 @ replicate 88 2)) (''10.0.0.1'', 69)
     [Datagram [0, 4, 0, 1] (''10.0.0.1'', 3000), Datagram [0, 4, 0, 2] (''10.9.9.9'', 4444)]
     world0 =
     (Completed,
      \<lparr>sent = [([0, 2, 97, 46, 98, 105, 110, 0, 111, 99, 116, 101, 116, 0], (''10.0.0.1'', 69)),
               ([0, 3, 0, 1] @ replicate 512 1, (''10.0.0.1'', 69)),
               ([0, 3, 0, 2] @ replicate 88 2, (''10.0.0.1'', 69))],
       printed = [upload_done_text], written = [], file_exists = False, position = 600\<rparr>) \<and>
   download_file ''a.bin'' (''10.0.0.1'', 69)
     [Datagram (0 # 3 # 0 # 1 # replicate 512 5) (''10.0.0.1'', 3000),
      Datagram [0, 3, 0, 2, 6] (''10.0.0.2'', 5000)] world0 =
     (Completed,
      \<lparr>sent = [([0, 1, 97, 46, 98, 105, 110, 0, 111, 99, 116, 101, 116, 0], (''10.0.0.1'', 69)),
               ([0, 4, 0, 1], (''10.0.0.1'', 3000)), ([0, 4, 0, 2], (''10.0.0.2'', 5000))],
       printed = [download_done_text], written = replicate 512 5 @ [6], file_exists = True,
       position = 0\<rparr>)"
proof -
  have d1: "is_data (Datagram (0 # 3 # 0 # 1 # replicate 512 5) (''10.0.0.1'', 3000)) 1
     (replicate 512 5) (''10.0.0.1'', 3000)"
    by (simp add: is_data_Datagram unpack_h_small)
  have d2: "is_data (Datagram [0, 3, 0, 2, 6] (''10.0.0.2'', 5000)) 2 [6] (''10.0.0.2'', 5000)"
    by (simp add: is_data_Datagram unpack_h_small)
  show ?thesis
    by (simp add: upload_file_start upload_loop_Datagram unpack_h_small
        download_file_start download_loop_accept[OF d1] download_loop_accept[OF d2]
        encode_def world0_def)
qed

end
